theory Spec2Isabelle
  imports Main "HOL-Library.AList"
begin

section \<open>JavaScript values and objects\<close>

text \<open>
  The package manager of \<^verbatim>\<open>serendipity-public/src/utils/package-manager.ts\<close> works on
  \<^verbatim>\<open>BaseObject\<close> values: the parsed content of a package.json. A value is modelled by
  the datatype \<open>json\<close>. Numbers are restricted to integers (a package.json has no use
  for fractions, and \<^verbatim>\<open>NaN\<close> cannot be written in JSON). An object is the list of its
  own properties in insertion order; a JavaScript object never holds a key twice, which
  is the predicate \<open>wf_json\<close> below. Properties inherited from \<^verbatim>\<open>Object.prototype\<close>
  are not modelled.
\<close>

datatype json =
    JUndefined
  | JNull
  | JBool bool
  | JNum int
  | JStr string
  | JArr "json list"
  | JObj "(string \<times> json) list"

type_synonym BaseObject = "(string \<times> json) list"

text \<open>\<^verbatim>\<open>!v\<close> is false exactly for the truthy values.\<close>

fun truthy :: "json \<Rightarrow> bool" where
  "truthy JUndefined = False"
| "truthy JNull = False"
| "truthy (JBool b) = b"
| "truthy (JNum n) = (n \<noteq> 0)"
| "truthy (JStr s) = (s \<noteq> [])"
| "truthy (JArr xs) = True"
| "truthy (JObj ps) = True"

text \<open>\<^verbatim>\<open>typeof v === 'object'\<close>: objects, arrays and \<^verbatim>\<open>null\<close>.\<close>

fun typeof_object :: "json \<Rightarrow> bool" where
  "typeof_object JNull = True"
| "typeof_object (JArr xs) = True"
| "typeof_object (JObj ps) = True"
| "typeof_object v = False"

text \<open>\<^verbatim>\<open>v === null || v === undefined\<close>, and the values that are mappings.\<close>

fun nullish :: "json \<Rightarrow> bool" where
  "nullish JUndefined = True"
| "nullish JNull = True"
| "nullish v = False"

fun isMapping :: "json \<Rightarrow> bool" where
  "isMapping (JObj ps) = True"
| "isMapping v = False"

text \<open>\<^verbatim>\<open>obj[key]\<close> on an object: the value stored, \<^verbatim>\<open>undefined\<close> for a missing key.\<close>

definition getProp :: "BaseObject \<Rightarrow> string \<Rightarrow> json" where
  "getProp obj key = (case map_of obj key of None \<Rightarrow> JUndefined | Some v \<Rightarrow> v)"

text \<open>
  \<^verbatim>\<open>obj[key] = v\<close>: an existing key keeps its place and gets the new value, a new key
  goes to the end.
\<close>

fun setProp :: "BaseObject \<Rightarrow> string \<Rightarrow> json \<Rightarrow> BaseObject" where
  "setProp [] key v = [(key, v)]"
| "setProp ((k, old) # ps) key v =
     (if k = key then (k, v) # ps else (k, old) # setProp ps key v)"

text \<open>\<^verbatim>\<open>delete obj[key]\<close>.\<close>

fun deleteProp :: "BaseObject \<Rightarrow> string \<Rightarrow> BaseObject" where
  "deleteProp [] key = []"
| "deleteProp ((k, v) # ps) key =
     (if k = key then deleteProp ps key else (k, v) # deleteProp ps key)"

text \<open>\<^verbatim>\<open>Object.keys(obj)\<close>.\<close>

definition Object_keys :: "BaseObject \<Rightarrow> string list" where
  "Object_keys obj = map fst obj"

text \<open>Well-formed values: no object, at any depth, holds a key twice.\<close>

fun wf_json :: "json \<Rightarrow> bool"
  and wf_entries :: "(string \<times> json) list \<Rightarrow> bool"
  and wf_items :: "json list \<Rightarrow> bool" where
  "wf_json (JObj ps) = (distinct (map fst ps) \<and> wf_entries ps)"
| "wf_json (JArr xs) = wf_items xs"
| "wf_json v = True"
| "wf_entries [] = True"
| "wf_entries ((k, v) # ps) = (wf_json v \<and> wf_entries ps)"
| "wf_items [] = True"
| "wf_items (x # xs) = (wf_json x \<and> wf_items xs)"

section \<open>PackageManager.mergeIntoCurrent\<close>

text \<open>
  \<^verbatim>\<open>MergePackageConfigOptions\<close>: both fields are optional; \<open>None\<close> is a field the
  caller left out. \<^verbatim>\<open>Object.assign(resultOptions, options)\<close> lets a given field replace
  the default \<^verbatim>\<open>true\<close>.
\<close>

record MergePackageConfigOptions =
  merge :: "bool option"
  ignoreNullOrUndefined :: "bool option"

definition resultOptions :: "MergePackageConfigOptions \<Rightarrow> bool \<times> bool" where
  "resultOptions options =
     (case merge options of None \<Rightarrow> True | Some b \<Rightarrow> b,
      case ignoreNullOrUndefined options of None \<Rightarrow> True | Some b \<Rightarrow> b)"

definition defaultOptions :: MergePackageConfigOptions where
  "defaultOptions = \<lparr>merge = None, ignoreNullOrUndefined = None\<rparr>"

definition isDependenciesKey :: "string \<Rightarrow> bool" where
  "isDependenciesKey key = (key = ''dependencies'' \<or> key = ''devDependencies'')"

text \<open>
  One pass of the loop body of \<^verbatim>\<open>mergeIntoCurrent\<close> for the entry \<open>(key, val)\<close> of
  \<^verbatim>\<open>dataToMerge\<close>. The two helpers \<^verbatim>\<open>mergeDependencies\<close> (\<^verbatim>\<open>./merge-deps\<close>) and
  \<^verbatim>\<open>webpackMerge\<close> (\<^verbatim>\<open>../index\<close>) are not part of the sources at hand and are
  parameters \<open>md\<close> and \<open>wm\<close>. The first argument is the pair (merge,
  ignoreNullOrUndefined) of the resolved options.
\<close>

fun mergeKey ::
  "(json \<Rightarrow> json \<Rightarrow> json) \<Rightarrow> (json \<Rightarrow> json \<Rightarrow> json) \<Rightarrow> bool \<times> bool \<Rightarrow>
   string \<Rightarrow> json \<Rightarrow> BaseObject \<Rightarrow> BaseObject" where
  "mergeKey md wm (mergeOpt, ignoreOpt) key val config =
     (let oldValue = getProp config key in
      if ignoreOpt \<and> \<not> truthy val then config
      else if \<not> mergeOpt \<or> \<not> truthy oldValue then setProp config key val
      else if typeof_object val \<and> isDependenciesKey key
        then setProp config key (md oldValue val)
      else if typeof_object val \<and> typeof_object oldValue
        then setProp config key (wm oldValue val)
      else config)"

text \<open>
  The loop \<^verbatim>\<open>for (const key of Object.keys(dataToMerge))\<close> with
  \<^verbatim>\<open>val = dataToMerge[key]\<close> visits the entries of the object in order.
\<close>

fun mergeLoop ::
  "(json \<Rightarrow> json \<Rightarrow> json) \<Rightarrow> (json \<Rightarrow> json \<Rightarrow> json) \<Rightarrow> bool \<times> bool \<Rightarrow>
   BaseObject \<Rightarrow> BaseObject \<Rightarrow> BaseObject" where
  "mergeLoop md wm opts [] config = config"
| "mergeLoop md wm opts ((key, val) # rest) config =
     mergeLoop md wm opts rest (mergeKey md wm opts key val config)"

text \<open>
  \<^verbatim>\<open>mergeIntoCurrent(data, options)\<close> on a manager whose \<^verbatim>\<open>packageConfig\<close> is the last
  argument; the result is the \<^verbatim>\<open>packageConfig\<close> after the call.
\<close>

definition mergeIntoCurrent ::
  "(json \<Rightarrow> json \<Rightarrow> json) \<Rightarrow> (json \<Rightarrow> json \<Rightarrow> json) \<Rightarrow>
   BaseObject \<Rightarrow> MergePackageConfigOptions \<Rightarrow> BaseObject \<Rightarrow> BaseObject" where
  "mergeIntoCurrent md wm data options config =
     mergeLoop md wm (resultOptions options) data config"

section \<open>The helpers of the merge, from the specification\<close>

text \<open>
  Modelled from the spec: \<^verbatim>\<open>mergeDependencies\<close> of \<^verbatim>\<open>./merge-deps\<close>, which is not
  among the sources. Section 4.1 of the specification: a package name present in only
  one map keeps its entry; for a name present in both, the incoming version is preferred
  when it is a valid, more specific or newer semver range than the existing one, and the
  existing version is kept otherwise; the inputs are not changed, the result is a new
  map. The specification does not say which ranges are valid, nor when one range is
  more specific or newer than another: that relation is the parameter \<open>newer\<close>, and
  \<open>newer incoming existing\<close> reads: the incoming range is valid and more specific or
  newer than the existing one. A version that is not a string is no range.
\<close>

fun prefersIncoming :: "(string \<Rightarrow> string \<Rightarrow> bool) \<Rightarrow> json \<Rightarrow> json \<Rightarrow> bool" where
  "prefersIncoming newer (JStr incoming) (JStr existing) = newer incoming existing"
| "prefersIncoming newer incoming existing = False"

fun mergeDependencyEntries ::
  "(string \<Rightarrow> string \<Rightarrow> bool) \<Rightarrow> BaseObject \<Rightarrow> BaseObject \<Rightarrow> BaseObject" where
  "mergeDependencyEntries newer result [] = result"
| "mergeDependencyEntries newer result ((name, incoming) # rest) =
     mergeDependencyEntries newer
       (case map_of result name of
          None \<Rightarrow> setProp result name incoming
        | Some existing \<Rightarrow>
            if prefersIncoming newer incoming existing then setProp result name incoming
            else result)
       rest"

text \<open>
  Modelled from the spec: \<^verbatim>\<open>mergeDependencies\<close> on the values the loop hands it. The
  specification speaks of two dependency maps only; where one of the two values is not
  a mapping the model returns the existing value.
\<close>

fun mergeDependencies_spec :: "(string \<Rightarrow> string \<Rightarrow> bool) \<Rightarrow> json \<Rightarrow> json \<Rightarrow> json" where
  "mergeDependencies_spec newer (JObj existing) (JObj incoming) =
     JObj (mergeDependencyEntries newer existing incoming)"
| "mergeDependencies_spec newer existing incoming = existing"

text \<open>
  Modelled from the spec: \<^verbatim>\<open>webpackMerge\<close>, exported by \<^verbatim>\<open>../index\<close>, which is not
  among the sources. Section 4.2 of the specification, rule 4 and the rules it refers
  to: two mappings are deep-merged key by key; an incoming \<^verbatim>\<open>null\<close> or
  \<^verbatim>\<open>undefined\<close> is skipped (rule 1); a key with no existing value takes the incoming
  value (rule 2); a dependency key with an incoming mapping goes to the dependency
  merger (rule 3); two mappings are merged recursively and an incoming scalar or array
  overwrites (rule 4); an incoming mapping over an existing value that is no mapping
  leaves the existing value (rule 5). The parameter \<open>newer\<close> is the one of the
  dependency merger.
\<close>

function (sequential)
  webpackMerge_spec :: "(string \<Rightarrow> string \<Rightarrow> bool) \<Rightarrow> json \<Rightarrow> json \<Rightarrow> json"
  and deepMergeEntries ::
    "(string \<Rightarrow> string \<Rightarrow> bool) \<Rightarrow> BaseObject \<Rightarrow> BaseObject \<Rightarrow> BaseObject" where
  "webpackMerge_spec newer (JObj existing) (JObj incoming) =
     JObj (deepMergeEntries newer existing incoming)"
| "webpackMerge_spec newer existing (JObj incoming) = existing"
| "webpackMerge_spec newer existing incoming = incoming"
| "deepMergeEntries newer result [] = result"
| "deepMergeEntries newer result ((key, val) # rest) =
     deepMergeEntries newer
       (if nullish val then result
        else (case map_of result key of
                None \<Rightarrow> setProp result key val
              | Some oldValue \<Rightarrow>
                  if nullish oldValue then setProp result key val
                  else if isMapping val \<and> isDependenciesKey key
                    then setProp result key (mergeDependencies_spec newer oldValue val)
                  else setProp result key (webpackMerge_spec newer oldValue val)))
       rest"
  by pat_completeness auto
termination
  by (relation "measure (\<lambda>x. case x of
        Inl (newer, existing, incoming) \<Rightarrow> size incoming
      | Inr (newer, result, entries) \<Rightarrow> size_list (size_prod (\<lambda>k. 0) size) entries)") auto

text \<open>
  A relation for the examples: of the two ranges of the scenario of the specification,
  \<^verbatim>\<open>^17.0.0\<close> is newer than \<^verbatim>\<open>^16.0.0\<close>; no other pair is ranked.
\<close>

definition exampleOrder :: "string \<Rightarrow> string \<Rightarrow> bool" where
  "exampleOrder incoming existing = (incoming = ''^17.0.0'' \<and> existing = ''^16.0.0'')"



section \<open>PackageManager.getPackageConfig\<close>

text \<open>
  \<^verbatim>\<open>val !== null && typeof val === 'object' && Object.keys(val).length === 0\<close>: an
  object without keys, or an array without elements.
\<close>

fun isEmptyObject :: "json \<Rightarrow> bool" where
  "isEmptyObject (JObj ps) = (ps = [])"
| "isEmptyObject (JArr xs) = (xs = [])"
| "isEmptyObject v = False"

definition hasOwnProperty :: "BaseObject \<Rightarrow> string \<Rightarrow> bool" where
  "hasOwnProperty obj key = (map_of obj key \<noteq> None)"

text \<open>
  The loop \<^verbatim>\<open>for (const tmpKey in tmp)\<close> over the keys the object had when the
  loop started. \<^verbatim>\<open>tmp\<close> is the very object \<^verbatim>\<open>this.packageConfig\<close>, not a copy.
\<close>

fun pruneLoop :: "string list \<Rightarrow> BaseObject \<Rightarrow> BaseObject" where
  "pruneLoop [] tmp = tmp"
| "pruneLoop (tmpKey # keys) tmp =
     pruneLoop keys
       (if hasOwnProperty tmp tmpKey then
          (let val = getProp tmp tmpKey in
           if isEmptyObject val then deleteProp tmp tmpKey else tmp)
        else tmp)"

text \<open>
  \<^verbatim>\<open>getPackageConfig()\<close>. \<^verbatim>\<open>sortPackageJson\<close> comes from the package
  \<^verbatim>\<open>sort-package-json\<close> and is a parameter. The result is the pair of the manager's
  \<^verbatim>\<open>packageConfig\<close> after the call, which is the object handed to
  \<^verbatim>\<open>sortPackageJson\<close>, and the object returned.
\<close>

definition getPackageConfig ::
  "(BaseObject \<Rightarrow> BaseObject) \<Rightarrow> BaseObject \<Rightarrow> BaseObject \<times> BaseObject" where
  "getPackageConfig sortPackageJson config =
     (let tmp = pruneLoop (Object_keys config) config in (tmp, sortPackageJson tmp))"

text \<open>
  A sorter for the examples: it returns the entries in another order, reorders the
  mappings below the top level and removes duplicates from arrays.
\<close>

definition exampleSorter :: "BaseObject \<Rightarrow> BaseObject" where
  "exampleSorter obj =
     rev (map (\<lambda>(key, val).
                (key, case val of
                        JObj ps \<Rightarrow> JObj (rev ps)
                      | JArr xs \<Rightarrow> JArr (remdups xs)
                      | v \<Rightarrow> v)) obj)"

text \<open>A value, or the entries of an object, with no empty mapping at any depth.\<close>

fun noEmptyMapping :: "json \<Rightarrow> bool"
  and noEmptyMappingEntries :: "(string \<times> json) list \<Rightarrow> bool"
  and noEmptyMappingItems :: "json list \<Rightarrow> bool" where
  "noEmptyMapping (JObj ps) = (ps \<noteq> [] \<and> noEmptyMappingEntries ps)"
| "noEmptyMapping (JArr xs) = noEmptyMappingItems xs"
| "noEmptyMapping v = True"
| "noEmptyMappingEntries [] = True"
| "noEmptyMappingEntries ((k, v) # ps) = (noEmptyMapping v \<and> noEmptyMappingEntries ps)"
| "noEmptyMappingItems [] = True"
| "noEmptyMappingItems (x # xs) = (noEmptyMapping x \<and> noEmptyMappingItems xs)"

section \<open>Construction of a PackageManager\<close>

text \<open>
  What the constructor and the factories read from outside the class:
  \<^verbatim>\<open>path.resolve\<close>, \<^verbatim>\<open>fs.existsSync\<close>, \<^verbatim>\<open>resolveModule\<close> (\<open>None\<close> when it throws)
  and the constant \<^verbatim>\<open>PACKAGE_JSON_BASE\<close>.
\<close>

record Env =
  path_resolve :: "string \<Rightarrow> string \<Rightarrow> string"
  existsSync :: "string \<Rightarrow> bool"
  resolveModule :: "string \<rightharpoonup> BaseObject"
  PACKAGE_JSON_BASE :: BaseObject

datatype PackageManagerName = npm | yarn

record PackageManagerOptions =
  opt_basePath :: string
  opt_managerName :: "PackageManagerName option"
  opt_packageConfig :: "BaseObject option"

record PackageManager =
  basePath :: string
  managerName :: PackageManagerName
  packageConfig :: BaseObject

text \<open>The error thrown by \<^verbatim>\<open>resolvePackageConfig\<close>: package.json does not exist.\<close>

datatype error = ConfigNotFound

definition getPackageManagerName :: "Env \<Rightarrow> string \<Rightarrow> PackageManagerName" where
  "getPackageManagerName env base =
     (if existsSync env (path_resolve env base ''yarn.lock'') then yarn else npm)"

definition constructor :: "Env \<Rightarrow> PackageManagerOptions \<Rightarrow> PackageManager" where
  "constructor env options =
     \<lparr>basePath = opt_basePath options,
      managerName =
        (case opt_managerName options of
           Some n \<Rightarrow> n
         | None \<Rightarrow> getPackageManagerName env (opt_basePath options)),
      packageConfig =
        (case opt_packageConfig options of
           Some c \<Rightarrow> c
         | None \<Rightarrow> PACKAGE_JSON_BASE env)\<rparr>"

definition resolvePackageConfig :: "Env \<Rightarrow> PackageManager \<Rightarrow> error + PackageManager" where
  "resolvePackageConfig env this =
     (case resolveModule env (path_resolve env (basePath this) ''package.json'') of
        None \<Rightarrow> Inl ConfigNotFound
      | Some c \<Rightarrow> Inr (this\<lparr>packageConfig := c\<rparr>))"

definition createWithResolve :: "Env \<Rightarrow> string \<Rightarrow> error + PackageManager" where
  "createWithResolve env base =
     resolvePackageConfig env
       (constructor env
          \<lparr>opt_basePath = base,
           opt_managerName = Some (getPackageManagerName env base),
           opt_packageConfig = None\<rparr>)"

definition createWithOptions :: "Env \<Rightarrow> PackageManagerOptions \<Rightarrow> error + PackageManager" where
  "createWithOptions env options = Inr (constructor env options)"

text \<open>A disk on which no module can be resolved and no file exists.\<close>

definition emptyDisk :: "BaseObject \<Rightarrow> Env" where
  "emptyDisk base =
     \<lparr>path_resolve = (\<lambda>dir name. dir @ ''/'' @ name),
      existsSync = (\<lambda>path. False),
      resolveModule = (\<lambda>path. None),
      PACKAGE_JSON_BASE = base\<rparr>"

section \<open>ReactService.start\<close>

text \<open>
  Member access \<^verbatim>\<open>v.key\<close> on a value that is not \<^verbatim>\<open>null\<close> or \<^verbatim>\<open>undefined\<close>, the
  optional chain \<^verbatim>\<open>v?.key\<close>, and \<^verbatim>\<open>a || b\<close>.
\<close>

fun member :: "json \<Rightarrow> string \<Rightarrow> json" where
  "member (JObj ps) key = getProp ps key"
| "member v key = JUndefined"

definition optChain :: "json \<Rightarrow> string \<Rightarrow> json" where
  "optChain v key = (if nullish v then JUndefined else member v key)"

definition orElse :: "json \<Rightarrow> json \<Rightarrow> json" where
  "orElse a b = (if truthy a then a else b)"

text \<open>
  The service holds the bundler configuration, the dev-server configuration, the app
  configuration its \<^verbatim>\<open>AppManager\<close> returns (an object) and the plugin modules. The
  runtime hook of a plugin gets nothing but \<^verbatim>\<open>mergeWebpackConfig\<close>; a plugin is the
  list of the calls its hook makes of it, each call with its list of configurations.
  \<^verbatim>\<open>webpackMerge\<close> with several configurations merges them from left to right.
\<close>

record ReactService =
  webpackConfig :: json
  devServerConfig :: BaseObject
  appConfig :: BaseObject
  pluginModules :: "json list list list"

definition mergeWebpackConfig ::
  "(json \<Rightarrow> json \<Rightarrow> json) \<Rightarrow> json list \<Rightarrow> ReactService \<Rightarrow> ReactService" where
  "mergeWebpackConfig wm configurations this =
     this\<lparr>webpackConfig := foldl wm (webpackConfig this) configurations\<rparr>"

definition runRuntimePlugins ::
  "(json \<Rightarrow> json \<Rightarrow> json) \<Rightarrow> ReactService \<Rightarrow> ReactService" where
  "runRuntimePlugins wm this =
     fold (\<lambda>pluginModule s. fold (mergeWebpackConfig wm) pluginModule s)
       (pluginModules this) this"

text \<open>
  What \<^verbatim>\<open>start()\<close> hands over: the configuration of the compiler, the options of the
  dev server, the port written to the environment (before its conversion to a string),
  and the port and host of \<^verbatim>\<open>server.listen\<close>.
\<close>

record Started =
  compilerConfig :: json
  devServerOptions :: BaseObject
  DEV_SERVER_PORT :: json
  listenPort :: json
  listenHost :: json

text \<open>
  \<^verbatim>\<open>DEFAULT_WEBPACK_DEV_SERVER_PORT\<close> and \<^verbatim>\<open>DEFAULT_WEBPACK_DEV_SERVER_HOST\<close> of
  \<^verbatim>\<open>../common/constants\<close> are the parameters \<open>defaultPort\<close> and \<open>defaultHost\<close>.
\<close>

definition start ::
  "(json \<Rightarrow> json \<Rightarrow> json) \<Rightarrow> json \<Rightarrow> json \<Rightarrow> ReactService \<Rightarrow> Started" where
  "start wm defaultPort defaultHost this =
     (let config = appConfig this;
          this1 = runRuntimePlugins wm this;
          userConfig = optChain (getProp config ''webpack'') ''webpackConfig'';
          this2 = (if truthy userConfig then mergeWebpackConfig wm [userConfig] this1
                   else this1);
          options = devServerConfig this2;
          additionalData = getProp config ''additional''
      in \<lparr>compilerConfig = webpackConfig this2,
          devServerOptions = options,
          DEV_SERVER_PORT = getProp options ''port'',
          listenPort = orElse (optChain additionalData ''webpackDevServerPort'') defaultPort,
          listenHost = orElse (optChain additionalData ''webpackDevServerHost'') defaultHost\<rparr>)"

text \<open>
  The port and the host of the user's app configuration: the fields
  \<^verbatim>\<open>webpackDevServerPort\<close> and \<^verbatim>\<open>webpackDevServerHost\<close> of its
  \<^verbatim>\<open>additional\<close> object, \<^verbatim>\<open>undefined\<close> when absent.
\<close>

definition userPort :: "ReactService \<Rightarrow> json" where
  "userPort this = optChain (getProp (appConfig this) ''additional'') ''webpackDevServerPort''"

definition userHost :: "ReactService \<Rightarrow> json" where
  "userHost this = optChain (getProp (appConfig this) ''additional'') ''webpackDevServerHost''"

section \<open>CoreManager.validateCreateCommand\<close>

text \<open>
  The arguments of the create command (the field \<^verbatim>\<open>type\<close>, \<open>None\<close> when it is
  \<^verbatim>\<open>undefined\<close>) and the result of a validation, as the test
  \<^verbatim>\<open>serendipity/__tests__/cliManager.spec.ts\<close> uses them. The test expects one fixed
  message; it is written here in English.
\<close>

record CreateArguments =
  projectType :: "string option"

record Validation =
  validated :: bool
  message :: "string option"

definition EMPTY_TYPE_MESSAGE :: string where
  "EMPTY_TYPE_MESSAGE =
     ''service type is empty, please choose a correct project type, for example react''"

text \<open>
  Modelled from the spec: \<^verbatim>\<open>CoreManager.validateCreateCommand\<close> of
  \<^verbatim>\<open>serendipity/src/coreManager\<close>, of which only the test is among the sources.
  Section 4.5 of the specification: validation fails, with a message, when the
  project-type argument is absent or empty, and succeeds, with no message, otherwise.
\<close>

definition validateCreateCommand_spec :: "CreateArguments \<Rightarrow> Validation" where
  "validateCreateCommand_spec args =
     (case projectType args of
        None \<Rightarrow> \<lparr>validated = False, message = Some EMPTY_TYPE_MESSAGE\<rparr>
      | Some t \<Rightarrow>
          if t = [] then \<lparr>validated = False, message = Some EMPTY_TYPE_MESSAGE\<rparr>
          else \<lparr>validated = True, message = None\<rparr>)"

section \<open>Merging key by key\<close>

text \<open>
  The three merges above have one shape: for each entry of the incoming object, a
  decision is taken from the key, the incoming value and the value stored so far, and
  it either leaves the object as it is or stores a value under the key. \<open>mergeBy\<close> is
  this shape; it is used in the proofs only.
\<close>

fun applyDecision :: "BaseObject \<Rightarrow> string \<Rightarrow> json option \<Rightarrow> BaseObject" where
  "applyDecision obj key None = obj"
| "applyDecision obj key (Some v) = setProp obj key v"

fun mergeBy ::
  "(string \<Rightarrow> json \<Rightarrow> json option \<Rightarrow> json option) \<Rightarrow> BaseObject \<Rightarrow> BaseObject \<Rightarrow> BaseObject" where
  "mergeBy d obj [] = obj"
| "mergeBy d obj ((key, val) # rest) =
     mergeBy d (applyDecision obj key (d key val (map_of obj key))) rest"

text \<open>The value stored under a key once the decision has been applied.\<close>

definition stored_after ::
  "(string \<Rightarrow> json \<Rightarrow> json option \<Rightarrow> json option) \<Rightarrow>
   string \<Rightarrow> json \<Rightarrow> json option \<Rightarrow> json option" where
  "stored_after d key val stored =
     (case d key val stored of None \<Rightarrow> stored | Some n \<Rightarrow> Some n)"

definition dependencyDecision ::
  "(string \<Rightarrow> string \<Rightarrow> bool) \<Rightarrow> string \<Rightarrow> json \<Rightarrow> json option \<Rightarrow> json option" where
  "dependencyDecision newer name incoming stored =
     (case stored of
        None \<Rightarrow> Some incoming
      | Some existing \<Rightarrow>
          if prefersIncoming newer incoming existing then Some incoming else None)"

definition deepDecision ::
  "(string \<Rightarrow> string \<Rightarrow> bool) \<Rightarrow> string \<Rightarrow> json \<Rightarrow> json option \<Rightarrow> json option" where
  "deepDecision newer key val stored =
     (if nullish val then None
      else (case stored of
              None \<Rightarrow> Some val
            | Some oldValue \<Rightarrow>
                if nullish oldValue then Some val
                else if isMapping val \<and> isDependenciesKey key
                  then Some (mergeDependencies_spec newer oldValue val)
                else Some (webpackMerge_spec newer oldValue val)))"

fun currentDecision ::
  "(json \<Rightarrow> json \<Rightarrow> json) \<Rightarrow> (json \<Rightarrow> json \<Rightarrow> json) \<Rightarrow> bool \<times> bool \<Rightarrow>
   string \<Rightarrow> json \<Rightarrow> json option \<Rightarrow> json option" where
  "currentDecision md wm (mergeOpt, ignoreOpt) key val stored =
     (let oldValue = (case stored of None \<Rightarrow> JUndefined | Some v \<Rightarrow> v) in
      if ignoreOpt \<and> \<not> truthy val then None
      else if \<not> mergeOpt \<or> \<not> truthy oldValue then Some val
      else if typeof_object val \<and> isDependenciesKey key then Some (md oldValue val)
      else if typeof_object val \<and> typeof_object oldValue then Some (wm oldValue val)
      else None)"

section \<open>Properties of objects\<close>

lemma setProp_update: "setProp ps key v = AList.update key v ps"
  by (induction ps) auto

lemma map_of_setProp: "map_of (setProp ps key v) = (map_of ps)(key \<mapsto> v)"
  by (simp add: setProp_update update_conv')

lemma keys_setProp: "fst ` set (setProp ps key v) = insert key (fst ` set ps)"
  by (simp add: setProp_update dom_update)

lemma setProp_same: "map_of ps key = Some v \<Longrightarrow> setProp ps key v = ps"
  by (simp add: setProp_update update_triv)

section \<open>Properties of the key-by-key merge\<close>

lemma mergeBy_fixed:
  "(\<And>key val. (key, val) \<in> set es \<Longrightarrow> applyDecision X key (d key val (map_of X key)) = X)
   \<Longrightarrow> mergeBy d X es = X"
  by (induction es) auto

lemma map_of_applyDecision:
  "map_of (applyDecision obj key r) k =
     (if k = key then (case r of None \<Rightarrow> map_of obj key | Some n \<Rightarrow> Some n) else map_of obj k)"
  by (cases r) (auto simp: map_of_setProp)

lemma map_of_mergeBy_notin:
  "k \<notin> fst ` set es \<Longrightarrow> map_of (mergeBy d obj es) k = map_of obj k"
  by (induction es arbitrary: obj) (auto simp: map_of_applyDecision)

lemma map_of_mergeBy_in:
  "distinct (map fst es) \<Longrightarrow> (k, v) \<in> set es \<Longrightarrow>
   map_of (mergeBy d obj es) k = stored_after d k v (map_of obj k)"
proof (induction es arbitrary: obj)
  case Nil
  then show ?case by simp
next
  case (Cons e es)
  obtain key val where e: "e = (key, val)" by (cases e)
  show ?case
  proof (cases "k = key")
    case True
    with Cons.prems e have v: "v = val" and notin: "k \<notin> fst ` set es"
      by (auto simp: rev_image_eqI)
    show ?thesis
      using True v notin
      by (simp add: e map_of_mergeBy_notin map_of_applyDecision stored_after_def)
  next
    case False
    with Cons.prems e have "(k, v) \<in> set es" "distinct (map fst es)" by auto
    then show ?thesis
      using Cons.IH False by (simp add: e map_of_applyDecision)
  qed
qed

lemma mergeBy_idem:
  assumes dist: "distinct (map fst es)"
    and law: "\<And>key val stored n. (key, val) \<in> set es \<Longrightarrow> d key val stored = Some n \<Longrightarrow>
                d key val (Some n) = None \<or> d key val (Some n) = Some n"
  shows "mergeBy d (mergeBy d obj es) es = mergeBy d obj es"
proof (rule mergeBy_fixed)
  fix key val
  assume mem: "(key, val) \<in> set es"
  let ?X = "mergeBy d obj es"
  have look: "map_of ?X key = stored_after d key val (map_of obj key)"
    using dist mem by (rule map_of_mergeBy_in)
  show "applyDecision ?X key (d key val (map_of ?X key)) = ?X"
  proof (cases "d key val (map_of obj key)")
    case None
    then show ?thesis using look by (simp add: stored_after_def)
  next
    case (Some n)
    then have X: "map_of ?X key = Some n" using look by (simp add: stored_after_def)
    from law [OF mem Some] show ?thesis
      using X by (auto simp: setProp_same)
  qed
qed

lemma mergeBy_self:
  assumes dist: "distinct (map fst es)"
    and law: "\<And>key val. (key, val) \<in> set es \<Longrightarrow>
                d key val (Some val) = None \<or> d key val (Some val) = Some val"
  shows "mergeBy d es es = es"
proof (rule mergeBy_fixed)
  fix key val
  assume mem: "(key, val) \<in> set es"
  then have "map_of es key = Some val" using dist by simp
  then show "applyDecision es key (d key val (map_of es key)) = es"
    using law [OF mem] by (auto simp: setProp_same)
qed

lemma mergeDependencyEntries_mergeBy:
  "mergeDependencyEntries newer result es = mergeBy (dependencyDecision newer) result es"
  by (induction es arbitrary: result) (auto simp: dependencyDecision_def split: option.splits)

lemma deepMergeEntries_mergeBy:
  "deepMergeEntries newer result es = mergeBy (deepDecision newer) result es"
  by (induction es arbitrary: result) (auto simp: deepDecision_def split: option.splits)

lemma mergeKey_decision:
  "mergeKey md wm opts key val config =
     applyDecision config key (currentDecision md wm opts key val (map_of config key))"
  by (cases opts) (simp add: Let_def getProp_def)

lemma mergeLoop_mergeBy:
  "mergeLoop md wm opts es config = mergeBy (currentDecision md wm opts) config es"
  by (induction es arbitrary: config) (auto simp: mergeKey_decision simp del: mergeKey.simps currentDecision.simps)

section \<open>Properties of the modelled helpers\<close>

lemma dependencyDecision_law:
  "dependencyDecision newer key val stored = Some n \<Longrightarrow>
   dependencyDecision newer key val (Some n) = None \<or> dependencyDecision newer key val (Some n) = Some n"
  by (auto simp: dependencyDecision_def split: option.splits if_splits)

lemma mergeDependencyEntries_idem:
  "distinct (map fst es) \<Longrightarrow>
   mergeDependencyEntries newer (mergeDependencyEntries newer result es) es = mergeDependencyEntries newer result es"
  unfolding mergeDependencyEntries_mergeBy
  by (rule mergeBy_idem) (auto dest: dependencyDecision_law)

lemma mergeDependencyEntries_self:
  "distinct (map fst es) \<Longrightarrow> mergeDependencyEntries newer es es = es"
  unfolding mergeDependencyEntries_mergeBy
  by (rule mergeBy_self) (auto simp: dependencyDecision_def)

lemma mergeDependencies_spec_idem:
  "wf_json val \<Longrightarrow>
   mergeDependencies_spec newer (mergeDependencies_spec newer old val) val = mergeDependencies_spec newer old val"
  by (cases "(newer, old, val)" rule: mergeDependencies_spec.cases)
     (auto simp: mergeDependencyEntries_idem)

lemma mergeDependencies_spec_self:
  "wf_json val \<Longrightarrow> mergeDependencies_spec newer val val = val"
  by (cases val) (auto simp: mergeDependencyEntries_self)

lemma mergeDependencies_spec_truthy:
  "truthy old \<Longrightarrow> truthy (mergeDependencies_spec newer old val)"
  by (cases "(newer, old, val)" rule: mergeDependencies_spec.cases) auto

lemma mergeDependencies_spec_not_nullish:
  "\<not> nullish old \<Longrightarrow> \<not> nullish (mergeDependencies_spec newer old val)"
  by (cases "(newer, old, val)" rule: mergeDependencies_spec.cases) auto

lemma webpackMerge_spec_eq:
  "webpackMerge_spec newer old val =
     (case val of
        JObj incoming \<Rightarrow>
          (case old of JObj existing \<Rightarrow> JObj (deepMergeEntries newer existing incoming) | _ \<Rightarrow> old)
      | _ \<Rightarrow> val)"
  by (cases old; cases val) simp_all

lemma webpackMerge_spec_not_nullish:
  "\<not> nullish old \<Longrightarrow> \<not> nullish val \<Longrightarrow> \<not> nullish (webpackMerge_spec newer old val)"
  by (cases val; cases old) simp_all

lemma deepDecision_cases:
  "deepDecision newer key val stored = Some n \<Longrightarrow>
   \<not> nullish val \<and>
   (n = val
    \<or> (isMapping val \<and> isDependenciesKey key \<and>
        (\<exists>old. \<not> nullish old \<and> n = mergeDependencies_spec newer old val))
    \<or> (\<not> (isMapping val \<and> isDependenciesKey key) \<and>
        (\<exists>old. \<not> nullish old \<and> n = webpackMerge_spec newer old val)))"
  unfolding deepDecision_def
  by (cases "nullish val"; cases stored) (auto split: if_splits)

lemma deepDecision_Some:
  "\<not> nullish val \<Longrightarrow> \<not> nullish n \<Longrightarrow>
   deepDecision newer key val (Some n) =
     Some (if isMapping val \<and> isDependenciesKey key then mergeDependencies_spec newer n val
           else webpackMerge_spec newer n val)"
  by (simp add: deepDecision_def)

lemma wf_entries_mem: "wf_entries ps \<Longrightarrow> (k, v) \<in> set ps \<Longrightarrow> wf_json v"
  by (induction ps) auto

lemma webpackMerge_spec_laws:
  "wf_json val \<Longrightarrow>
   webpackMerge_spec newer val val = val \<and>
   (\<forall>old. webpackMerge_spec newer (webpackMerge_spec newer old val) val = webpackMerge_spec newer old val)"
proof (induction val)
  case (JObj ps)
  have dist: "distinct (map fst ps)" and wfe: "wf_entries ps" using JObj.prems by auto
  have IH: "webpackMerge_spec newer v v = v \<and>
            (\<forall>old. webpackMerge_spec newer (webpackMerge_spec newer old v) v = webpackMerge_spec newer old v)"
    if "(k, v) \<in> set ps" for k v
  proof -
    have "wf_json v" using wfe that by (rule wf_entries_mem)
    moreover have "v \<in> Basic_BNFs.snds (k, v)" by simp
    ultimately show ?thesis using JObj.IH that by blast
  qed
  have law: "deepDecision newer k v (Some n) = None \<or> deepDecision newer k v (Some n) = Some n"
    if mem: "(k, v) \<in> set ps" and dec: "deepDecision newer k v stored = Some n" for k v stored n
  proof -
    have wfv: "wf_json v" using wfe mem by (rule wf_entries_mem)
    note ih = IH [OF mem]
    from deepDecision_cases [OF dec] have nv: "\<not> nullish v" by simp
    from deepDecision_cases [OF dec] consider
        (incoming) "n = v"
      | (deps) old where "isMapping v \<and> isDependenciesKey k" "\<not> nullish old"
          "n = mergeDependencies_spec newer old v"
      | (deep) old where "\<not> (isMapping v \<and> isDependenciesKey k)" "\<not> nullish old"
          "n = webpackMerge_spec newer old v"
      by blast
    then show ?thesis
    proof cases
      case incoming
      then show ?thesis
        using nv ih wfv by (simp add: deepDecision_Some mergeDependencies_spec_self)
    next
      case deps
      then show ?thesis
        using nv wfv
        by (simp add: deepDecision_Some mergeDependencies_spec_not_nullish
              mergeDependencies_spec_idem)
    next
      case deep
      then show ?thesis
        using nv ih by (auto simp: deepDecision_Some webpackMerge_spec_not_nullish)
    qed
  qed
  have self: "deepDecision newer k v (Some v) = None \<or> deepDecision newer k v (Some v) = Some v"
    if mem: "(k, v) \<in> set ps" for k v
  proof -
    have wfv: "wf_json v" using wfe mem by (rule wf_entries_mem)
    show ?thesis
    proof (cases "nullish v")
      case True
      then show ?thesis by (simp add: deepDecision_def)
    next
      case False
      then show ?thesis
        using IH [OF mem] wfv by (simp add: deepDecision_Some mergeDependencies_spec_self)
    qed
  qed
  have 1: "deepMergeEntries newer ps ps = ps"
    unfolding deepMergeEntries_mergeBy using dist self by (rule mergeBy_self)
  have 2: "deepMergeEntries newer (deepMergeEntries newer existing ps) ps = deepMergeEntries newer existing ps"
    for existing
    unfolding deepMergeEntries_mergeBy using dist law by (rule mergeBy_idem)
  have 3: "webpackMerge_spec newer (webpackMerge_spec newer old (JObj ps)) (JObj ps)
           = webpackMerge_spec newer old (JObj ps)" for old
    by (cases old) (simp_all add: 2)
  show ?case
    using 1 3 by simp
qed simp_all

section \<open>Properties of the loop of mergeIntoCurrent\<close>

lemma webpackMerge_spec_typeof:
  "typeof_object old \<Longrightarrow> typeof_object val \<Longrightarrow> typeof_object (webpackMerge_spec newer old val)"
  by (cases val; cases old) simp_all

lemma webpackMerge_spec_falsy:
  "truthy old \<Longrightarrow> \<not> truthy (webpackMerge_spec newer old val) \<Longrightarrow> webpackMerge_spec newer old val = val"
  by (cases val; cases old) simp_all

lemma currentDecision_cases:
  "currentDecision md wm (mergeOpt, ignoreOpt) key val stored = Some n \<Longrightarrow>
   \<not> (ignoreOpt \<and> \<not> truthy val) \<and>
   (n = val \<and> \<not> mergeOpt
    \<or> n = val \<and> mergeOpt
    \<or> (mergeOpt \<and> typeof_object val \<and> isDependenciesKey key \<and>
        (\<exists>old. truthy old \<and> n = md old val))
    \<or> (mergeOpt \<and> typeof_object val \<and> \<not> isDependenciesKey key \<and>
        (\<exists>old. truthy old \<and> typeof_object old \<and> n = wm old val)))"
  by (cases mergeOpt; cases ignoreOpt; cases "truthy val") (auto simp: Let_def split: if_splits)

lemma currentDecision_Some:
  "\<not> (ignoreOpt \<and> \<not> truthy val) \<Longrightarrow>
   currentDecision md wm (mergeOpt, ignoreOpt) key val (Some n) =
     (if \<not> mergeOpt \<or> \<not> truthy n then Some val
      else if typeof_object val \<and> isDependenciesKey key then Some (md n val)
      else if typeof_object val \<and> typeof_object n then Some (wm n val)
      else None)"
  by (auto simp: Let_def)

text \<open>
  What the loop needs of its two helpers for a second pass to change nothing: merging a
  value with itself returns it, merging the incoming value once more into the merged
  value returns the merged value, and what the helpers return for a truthy existing
  value is found again on the second pass (it is truthy, or it is the incoming value).
\<close>

lemma currentDecision_law:
  assumes self: "typeof_object val \<Longrightarrow> md val val = val \<and> wm val val = val"
    and deps: "\<And>old. truthy old \<Longrightarrow> typeof_object val \<Longrightarrow>
                truthy (md old val) \<and> md (md old val) val = md old val"
    and deep: "\<And>old. truthy old \<Longrightarrow> typeof_object old \<Longrightarrow> typeof_object val \<Longrightarrow>
                typeof_object (wm old val) \<and> (truthy (wm old val) \<or> wm old val = val)
                \<and> wm (wm old val) val = wm old val"
    and dec: "currentDecision md wm opts key val stored = Some n"
  shows "currentDecision md wm opts key val (Some n) = None
       \<or> currentDecision md wm opts key val (Some n) = Some n"
proof -
  obtain mergeOpt ignoreOpt where opts: "opts = (mergeOpt, ignoreOpt)" by (cases opts)
  note c = currentDecision_cases [OF dec [unfolded opts]]
  from c have go: "\<not> (ignoreOpt \<and> \<not> truthy val)" by simp
  from c consider
      (overwrite) "n = val" "\<not> mergeOpt"
    | (fresh) "n = val" "mergeOpt"
    | (dependencies) old where "mergeOpt" "typeof_object val" "isDependenciesKey key"
        "truthy old" "n = md old val"
    | (objects) old where "mergeOpt" "typeof_object val" "\<not> isDependenciesKey key"
        "truthy old" "typeof_object old" "n = wm old val"
    by blast
  then show ?thesis
  proof cases
    case overwrite
    then show ?thesis unfolding opts currentDecision_Some [OF go] by simp
  next
    case fresh
    then show ?thesis
      unfolding opts currentDecision_Some [OF go] using self by simp
  next
    case dependencies
    then show ?thesis
      unfolding opts currentDecision_Some [OF go]
      using deps [of old] by simp
  next
    case objects
    note law = deep [OF objects(4,5,2)]
    show ?thesis
    proof (cases "truthy (wm old val)")
      case True
      then show ?thesis
        unfolding opts currentDecision_Some [OF go]
        using objects law by simp
    next
      case False
      then have "wm old val = val" using law by simp
      then show ?thesis
        unfolding opts currentDecision_Some [OF go]
        using objects False by simp
    qed
  qed
qed

lemma mergeLoop_idempotent_if:
  assumes dist: "distinct (map fst data)"
    and self: "\<And>key val. (key, val) \<in> set data \<Longrightarrow> typeof_object val \<Longrightarrow>
                md val val = val \<and> wm val val = val"
    and deps: "\<And>key val old. (key, val) \<in> set data \<Longrightarrow> truthy old \<Longrightarrow>
                typeof_object val \<Longrightarrow>
                truthy (md old val) \<and> md (md old val) val = md old val"
    and deep: "\<And>key val old. (key, val) \<in> set data \<Longrightarrow> truthy old \<Longrightarrow>
                typeof_object old \<Longrightarrow> typeof_object val \<Longrightarrow>
                typeof_object (wm old val) \<and> (truthy (wm old val) \<or> wm old val = val)
                \<and> wm (wm old val) val = wm old val"
  shows "mergeLoop md wm opts data (mergeLoop md wm opts data config)
           = mergeLoop md wm opts data config"
  unfolding mergeLoop_mergeBy
proof (rule mergeBy_idem [OF dist])
  fix key val stored n
  assume mem: "(key, val) \<in> set data"
    and dec: "currentDecision md wm opts key val stored = Some n"
  show "currentDecision md wm opts key val (Some n) = None
      \<or> currentDecision md wm opts key val (Some n) = Some n"
    using self [OF mem] deps [OF mem] deep [OF mem] dec by (rule currentDecision_law)
qed

lemma spec_helpers_idempotent:
  assumes "wf_json val"
  shows "mergeDependencies_spec newer val val = val \<and> webpackMerge_spec newer val val = val"
    and "truthy old \<Longrightarrow>
           truthy (mergeDependencies_spec newer old val)
           \<and> mergeDependencies_spec newer (mergeDependencies_spec newer old val) val
               = mergeDependencies_spec newer old val"
    and "truthy old \<Longrightarrow> typeof_object old \<Longrightarrow> typeof_object val \<Longrightarrow>
           typeof_object (webpackMerge_spec newer old val)
           \<and> (truthy (webpackMerge_spec newer old val) \<or> webpackMerge_spec newer old val = val)
           \<and> webpackMerge_spec newer (webpackMerge_spec newer old val) val = webpackMerge_spec newer old val"
proof -
  note W = webpackMerge_spec_laws [OF assms]
  show "mergeDependencies_spec newer val val = val \<and> webpackMerge_spec newer val val = val"
    using W assms by (simp add: mergeDependencies_spec_self)
  show "truthy (mergeDependencies_spec newer old val)
           \<and> mergeDependencies_spec newer (mergeDependencies_spec newer old val) val
               = mergeDependencies_spec newer old val" if "truthy old"
    using that assms by (simp add: mergeDependencies_spec_truthy mergeDependencies_spec_idem)
  show "typeof_object (webpackMerge_spec newer old val)
           \<and> (truthy (webpackMerge_spec newer old val) \<or> webpackMerge_spec newer old val = val)
           \<and> webpackMerge_spec newer (webpackMerge_spec newer old val) val = webpackMerge_spec newer old val"
    if "truthy old" "typeof_object old" "typeof_object val"
    using that W webpackMerge_spec_falsy [of old newer val]
    by (auto simp: webpackMerge_spec_typeof)
qed

lemma map_of_mergeLoop:
  "distinct (map fst data) \<Longrightarrow> (key, val) \<in> set data \<Longrightarrow>
   map_of (mergeLoop md wm opts data config) key
     = stored_after (currentDecision md wm opts) key val (map_of config key)"
  unfolding mergeLoop_mergeBy by (rule map_of_mergeBy_in)


section \<open>The merge never removes a key\<close>

lemma keys_mergeKey:
  "set (map fst cfg) \<subseteq> set (map fst (mergeKey md wm opts key val cfg))"
  by (cases opts) (simp add: Let_def keys_setProp subset_insertI)

lemma keys_mergeLoop:
  "set (map fst cfg) \<subseteq> set (map fst (mergeLoop md wm opts data cfg))"
proof (induction data arbitrary: cfg)
  case Nil
  show ?case by simp
next
  case (Cons entry rest)
  obtain key val where entry: "entry = (key, val)" by (cases entry)
  have "set (map fst cfg) \<subseteq> set (map fst (mergeKey md wm opts key val cfg))"
    by (rule keys_mergeKey)
  also have "\<dots> \<subseteq> set (map fst (mergeLoop md wm opts rest (mergeKey md wm opts key val cfg)))"
    by (rule Cons.IH)
  finally show ?case by (simp add: entry)
qed

text \<open>
  Claim C10. Whatever the helpers, the fragment and the options are, every key of the
  stored configuration before \<^verbatim>\<open>mergeIntoCurrent\<close> is a key of it after the call.
\<close>

theorem mergeIntoCurrent_keeps_keys:
  "set (Object_keys config)
     \<subseteq> set (Object_keys (mergeIntoCurrent md wm data options config))"
  unfolding Object_keys_def mergeIntoCurrent_def by (rule keys_mergeLoop)

section \<open>Merging a fragment twice\<close>

text \<open>
  Claim C1. With the helpers as the specification describes them, whatever the relation
  \<open>newer\<close> between ranges is, merging a fragment into a configuration a second time
  changes nothing, for every options record (so for \<^verbatim>\<open>merge: true\<close>), every stored
  configuration and every fragment that is a JavaScript object (no key twice, at any
  depth).
\<close>

theorem mergeIntoCurrent_idempotent:
  assumes "wf_json (JObj data)"
  shows "mergeIntoCurrent (mergeDependencies_spec newer) (webpackMerge_spec newer)
           data options
           (mergeIntoCurrent (mergeDependencies_spec newer) (webpackMerge_spec newer)
              data options config)
         = mergeIntoCurrent (mergeDependencies_spec newer) (webpackMerge_spec newer)
             data options config"
proof -
  have dist: "distinct (map fst data)" and wfe: "wf_entries data" using assms by auto
  have wfv: "wf_json val" if "(key, val) \<in> set data" for key val
    using wfe that by (rule wf_entries_mem)
  show ?thesis
    unfolding mergeIntoCurrent_def
    using dist
  proof (rule mergeLoop_idempotent_if)
    fix key val old
    assume mem: "(key, val) \<in> set data"
    note laws = spec_helpers_idempotent [OF wfv [OF mem]]
    show "mergeDependencies_spec newer val val = val \<and> webpackMerge_spec newer val val = val"
      by (rule laws(1))
    show "truthy (mergeDependencies_spec newer old val)
           \<and> mergeDependencies_spec newer (mergeDependencies_spec newer old val) val
               = mergeDependencies_spec newer old val" if "truthy old"
      using that by (rule laws(2))
    show "typeof_object (webpackMerge_spec newer old val)
           \<and> (truthy (webpackMerge_spec newer old val) \<or> webpackMerge_spec newer old val = val)
           \<and> webpackMerge_spec newer (webpackMerge_spec newer old val) val = webpackMerge_spec newer old val"
      if "truthy old" "typeof_object old" "typeof_object val"
      using that by (rule laws(3))
  qed
qed

theorem mergeIntoCurrent_idempotent_witness:
  "wf_json (JObj [(''name'', JStr ''app''), (''private'', JBool False),
                  (''files'', JArr [JStr ''bin'']),
                  (''scripts'', JObj [(''build'', JStr ''tsc'')]),
                  (''dependencies'', JObj [(''react'', JStr ''^17.0.0'')])])
   \<and> mergeIntoCurrent (mergeDependencies_spec exampleOrder) (webpackMerge_spec exampleOrder)
         [(''name'', JStr ''app''), (''private'', JBool False),
          (''files'', JArr [JStr ''bin'']),
          (''scripts'', JObj [(''build'', JStr ''tsc'')]),
          (''dependencies'', JObj [(''react'', JStr ''^17.0.0'')])]
         \<lparr>merge = Some True, ignoreNullOrUndefined = None\<rparr>
         (mergeIntoCurrent (mergeDependencies_spec exampleOrder) (webpackMerge_spec exampleOrder)
            [(''name'', JStr ''app''), (''private'', JBool False),
             (''files'', JArr [JStr ''bin'']),
             (''scripts'', JObj [(''build'', JStr ''tsc'')]),
             (''dependencies'', JObj [(''react'', JStr ''^17.0.0'')])]
            \<lparr>merge = Some True, ignoreNullOrUndefined = None\<rparr>
            [(''name'', JStr ''old''), (''scripts'', JObj [(''test'', JStr ''jest'')]),
             (''dependencies'', JObj [(''react'', JStr ''^16.0.0'')])])
     = mergeIntoCurrent (mergeDependencies_spec exampleOrder) (webpackMerge_spec exampleOrder)
         [(''name'', JStr ''app''), (''private'', JBool False),
          (''files'', JArr [JStr ''bin'']),
          (''scripts'', JObj [(''build'', JStr ''tsc'')]),
          (''dependencies'', JObj [(''react'', JStr ''^17.0.0'')])]
         \<lparr>merge = Some True, ignoreNullOrUndefined = None\<rparr>
         [(''name'', JStr ''old''), (''scripts'', JObj [(''test'', JStr ''jest'')]),
          (''dependencies'', JObj [(''react'', JStr ''^16.0.0'')])]"
proof -
  have h: "wf_json (JObj [(''name'', JStr ''app''), (''private'', JBool False),
                  (''files'', JArr [JStr ''bin'']),
                  (''scripts'', JObj [(''build'', JStr ''tsc'')]),
                  (''dependencies'', JObj [(''react'', JStr ''^17.0.0'')])])"
    by simp
  show ?thesis
    by (rule conjI, rule h, rule mergeIntoCurrent_idempotent [OF h])
qed

section \<open>An existing value and an incoming value at one key\<close>

text \<open>
  Claim C4, as the code has it. With \<^verbatim>\<open>merge: true\<close>, at a key that is no dependency
  key and whose existing and incoming values are both truthy: when both values are of
  type \<^verbatim>\<open>'object'\<close> (mappings or arrays) the stored value becomes what
  \<^verbatim>\<open>webpackMerge\<close> returns for them; in every other case, so whenever one of the two
  is a scalar, the existing value stays and the incoming value is dropped.
\<close>

theorem mergeIntoCurrent_existing_value:
  assumes "distinct (Object_keys data)" and "(key, val) \<in> set data"
    and "\<not> isDependenciesKey key" and "merge options \<noteq> Some False"
    and "truthy val" and "truthy (getProp config key)"
  shows "getProp (mergeIntoCurrent md wm data options config) key =
           (if typeof_object val \<and> typeof_object (getProp config key)
            then wm (getProp config key) val
            else getProp config key)"
proof -
  obtain ignoreOpt where opts: "resultOptions options = (True, ignoreOpt)"
    using assms(4) by (cases "merge options") (auto simp: resultOptions_def)
  have "map_of (mergeLoop md wm (True, ignoreOpt) data config) key
          = stored_after (currentDecision md wm (True, ignoreOpt)) key val (map_of config key)"
    using assms(1,2) unfolding Object_keys_def by (rule map_of_mergeLoop)
  then show ?thesis
    using assms(3,5,6)
    by (auto simp: mergeIntoCurrent_def opts getProp_def stored_after_def Let_def
          split: option.splits)
qed

theorem mergeIntoCurrent_existing_value_witness:
  "getProp (mergeIntoCurrent (mergeDependencies_spec exampleOrder) (webpackMerge_spec exampleOrder)
              [(''name'', JStr ''b'')] defaultOptions [(''name'', JStr ''a'')]) ''name''
     = JStr ''a''"
  using mergeIntoCurrent_existing_value
    [of "[(''name'', JStr ''b'')]" "''name''" "JStr ''b''" defaultOptions
        "[(''name'', JStr ''a'')]" "mergeDependencies_spec exampleOrder"
        "webpackMerge_spec exampleOrder"]
  by (simp add: Object_keys_def isDependenciesKey_def defaultOptions_def getProp_def)

text \<open>
  The claim as it stands fails: an incoming scalar does not overwrite an existing
  scalar.
\<close>

theorem scalar_does_not_overwrite:
  "getProp (mergeIntoCurrent (mergeDependencies_spec exampleOrder) (webpackMerge_spec exampleOrder)
              [(''name'', JStr ''b'')]
              \<lparr>merge = Some True, ignoreNullOrUndefined = Some True\<rparr>
              [(''name'', JStr ''a'')]) ''name''
     \<noteq> JStr ''b''"
  by (simp add: mergeIntoCurrent_def resultOptions_def getProp_def)

section \<open>Falsy incoming values\<close>

text \<open>
  Claim C3 at its failing input. With the default options the incoming values
  \<^verbatim>\<open>false\<close>, \<^verbatim>\<open>0\<close> and the empty string are skipped although no value exists
  for their keys: the test of the code is \<^verbatim>\<open>!val\<close>, not a test for \<^verbatim>\<open>null\<close> or
  \<^verbatim>\<open>undefined\<close>.
\<close>

theorem mergeIntoCurrent_skips_falsy:
  "mergeIntoCurrent md wm
     [(''private'', JBool False), (''port'', JNum 0), (''description'', JStr [])]
     defaultOptions []
   = []"
  by (simp add: mergeIntoCurrent_def resultOptions_def defaultOptions_def)

section \<open>An older range of a dependency\<close>






section \<open>What getPackageConfig returns and what it stores\<close>

lemma deleteProp_filter: "deleteProp ps key = filter (\<lambda>(k, v). k \<noteq> key) ps"
  by (induction ps) auto

lemma distinct_deleteProp: "distinct (map fst ps) \<Longrightarrow> distinct (map fst (deleteProp ps key))"
  by (simp add: deleteProp_filter distinct_map_filter)

lemma pruneLoop_filter:
  "distinct (map fst tmp) \<Longrightarrow>
   pruneLoop keys tmp = filter (\<lambda>(k, v). \<not> (k \<in> set keys \<and> isEmptyObject v)) tmp"
proof (induction keys arbitrary: tmp)
  case Nil
  then show ?case by simp
next
  case (Cons key keys)
  show ?case
  proof (cases "hasOwnProperty tmp key \<and> isEmptyObject (getProp tmp key)")
    case True
    then obtain val where val: "map_of tmp key = Some val" "isEmptyObject val"
      by (auto simp: hasOwnProperty_def getProp_def)
    have same: "v = val" if "(key, v) \<in> set tmp" for v
      using that val(1) Cons.prems by simp
    have "pruneLoop (key # keys) tmp = pruneLoop keys (deleteProp tmp key)"
      using True by (simp add: Let_def)
    also have "\<dots> = filter (\<lambda>(k, v). \<not> (k \<in> set keys \<and> isEmptyObject v)) (deleteProp tmp key)"
      using Cons.prems by (intro Cons.IH distinct_deleteProp)
    also have "\<dots> = filter (\<lambda>(k, v). \<not> (k \<in> set (key # keys) \<and> isEmptyObject v)) tmp"
      unfolding deleteProp_filter filter_filter
      by (rule filter_cong) (auto simp: val(2) dest: same)
    finally show ?thesis .
  next
    case False
    have keep: "\<not> isEmptyObject v" if "(key, v) \<in> set tmp" for v
    proof -
      have "map_of tmp key = Some v" using that Cons.prems by simp
      then show ?thesis using False by (simp add: hasOwnProperty_def getProp_def)
    qed
    have "pruneLoop (key # keys) tmp = pruneLoop keys tmp"
      using False by (auto simp: Let_def)
    also have "\<dots> = filter (\<lambda>(k, v). \<not> (k \<in> set keys \<and> isEmptyObject v)) tmp"
      using Cons.prems by (rule Cons.IH)
    also have "\<dots> = filter (\<lambda>(k, v). \<not> (k \<in> set (key # keys) \<and> isEmptyObject v)) tmp"
      by (rule filter_cong) (auto dest: keep)
    finally show ?thesis .
  qed
qed

lemma pruneLoop_all:
  assumes "distinct (Object_keys config)"
  shows "pruneLoop (Object_keys config) config = filter (\<lambda>(k, v). \<not> isEmptyObject v) config"
proof -
  have "pruneLoop (map fst config) config
          = filter (\<lambda>(k, v). \<not> (k \<in> set (map fst config) \<and> isEmptyObject v)) config"
    using assms unfolding Object_keys_def by (rule pruneLoop_filter)
  also have "\<dots> = filter (\<lambda>(k, v). \<not> isEmptyObject v) config"
    by (rule filter_cong) (auto simp: rev_image_eqI)
  finally show ?thesis by (simp add: Object_keys_def)
qed

lemma exampleSorter_adds_no_empty_mapping:
  "(key, JObj []) \<in> set (exampleSorter obj) \<Longrightarrow> (key, JObj []) \<in> set obj"
  by (auto simp: exampleSorter_def split: json.splits)

text \<open>
  Claim C5, as the code has it. The object \<^verbatim>\<open>getPackageConfig()\<close> hands to
  \<^verbatim>\<open>sortPackageJson\<close> has no top-level key whose value is an empty mapping, and
  neither has the object it returns, when \<^verbatim>\<open>sortPackageJson\<close> puts no empty mapping
  at the top level that its argument does not have there. Values below the top level
  are not looked at.
\<close>

theorem getPackageConfig_returns_no_empty_value:
  assumes "distinct (Object_keys config)"
    and "\<And>obj k. (k, JObj []) \<in> set (sortPackageJson obj) \<Longrightarrow> (k, JObj []) \<in> set obj"
  shows "(key, JObj []) \<notin> set (fst (getPackageConfig sortPackageJson config))
       \<and> (key, JObj []) \<notin> set (snd (getPackageConfig sortPackageJson config))"
proof -
  let ?tmp = "filter (\<lambda>(k, v). \<not> isEmptyObject v) config"
  have handed: "getPackageConfig sortPackageJson config = (?tmp, sortPackageJson ?tmp)"
    using assms(1) by (simp add: getPackageConfig_def Let_def pruneLoop_all)
  have none: "(key, JObj []) \<notin> set ?tmp" by simp
  then have "(key, JObj []) \<notin> set (sortPackageJson ?tmp)"
    using assms(2) by blast
  with none show ?thesis by (simp add: handed)
qed

theorem getPackageConfig_returns_no_empty_value_witness:
  "(''scripts'', JObj []) \<notin> set (fst (getPackageConfig exampleSorter
       [(''name'', JStr ''app''), (''scripts'', JObj []),
        (''keywords'', JArr [JStr ''cli'', JStr ''cli'']),
        (''config'', JObj [(''port'', JNum 1), (''host'', JStr ''h'')])]))
   \<and> (''scripts'', JObj []) \<notin> set (snd (getPackageConfig exampleSorter
       [(''name'', JStr ''app''), (''scripts'', JObj []),
        (''keywords'', JArr [JStr ''cli'', JStr ''cli'']),
        (''config'', JObj [(''port'', JNum 1), (''host'', JStr ''h'')])]))"
proof (rule getPackageConfig_returns_no_empty_value)
  show "distinct (Object_keys [(''name'', JStr ''app''), (''scripts'', JObj []),
        (''keywords'', JArr [JStr ''cli'', JStr ''cli'']),
        (''config'', JObj [(''port'', JNum 1), (''host'', JStr ''h'')])])"
    by (simp add: Object_keys_def)
  show "(k, JObj []) \<in> set obj" if "(k, JObj []) \<in> set (exampleSorter obj)" for obj k
    using that by (rule exampleSorter_adds_no_empty_mapping)
qed

text \<open>
  The claim as it stands fails: an empty mapping below the top level is returned.
\<close>

theorem nested_empty_mapping_is_returned:
  "\<not> noEmptyMappingEntries
       (snd (getPackageConfig (\<lambda>obj. obj) [(''config'', JObj [(''nested'', JObj [])])]))"
  by (simp add: getPackageConfig_def Object_keys_def hasOwnProperty_def getProp_def Let_def)

text \<open>
  Claim C6, as the code has it. \<^verbatim>\<open>getPackageConfig()\<close> works on the stored object
  itself: after the call the stored configuration is the one before without the
  top-level keys whose value is an empty object or array; every other entry is
  unchanged and in place, and a second call changes nothing more.
\<close>

theorem getPackageConfig_prunes_stored_config:
  assumes "distinct (Object_keys config)"
  shows "fst (getPackageConfig sortPackageJson config)
           = filter (\<lambda>(key, val). \<not> isEmptyObject val) config
       \<and> fst (getPackageConfig sortPackageJson (fst (getPackageConfig sortPackageJson config)))
           = fst (getPackageConfig sortPackageJson config)"
proof -
  have 1: "fst (getPackageConfig sortPackageJson c) = filter (\<lambda>(key, val). \<not> isEmptyObject val) c"
    if "distinct (Object_keys c)" for c
    using that by (simp add: getPackageConfig_def Let_def pruneLoop_all)
  have "distinct (Object_keys (filter (\<lambda>(key, val). \<not> isEmptyObject val) config))"
    using assms unfolding Object_keys_def by (rule distinct_map_filter)
  then show ?thesis using assms by (simp add: 1)
qed

theorem getPackageConfig_prunes_stored_config_witness:
  "fst (getPackageConfig rev [(''name'', JStr ''app''), (''scripts'', JObj [])])
     = filter (\<lambda>(key, val). \<not> isEmptyObject val) [(''name'', JStr ''app''), (''scripts'', JObj [])]
   \<and> fst (getPackageConfig rev
            (fst (getPackageConfig rev [(''name'', JStr ''app''), (''scripts'', JObj [])])))
     = fst (getPackageConfig rev [(''name'', JStr ''app''), (''scripts'', JObj [])])"
  by (rule getPackageConfig_prunes_stored_config) (simp add: Object_keys_def)

text \<open>
  The claim as it stands fails: the call removes a key of the stored configuration.
\<close>

theorem getPackageConfig_changes_stored_config:
  "fst (getPackageConfig (\<lambda>obj. obj) [(''name'', JStr ''app''), (''scripts'', JObj [])])
     = [(''name'', JStr ''app'')]
   \<and> fst (getPackageConfig (\<lambda>obj. obj) [(''name'', JStr ''app''), (''scripts'', JObj [])])
     \<noteq> [(''name'', JStr ''app''), (''scripts'', JObj [])]"
  by (simp add: getPackageConfig_def Object_keys_def hasOwnProperty_def getProp_def Let_def)

section \<open>Validation of the create command\<close>

text \<open>
  Claim C7. With \<^verbatim>\<open>validateCreateCommand\<close> as the specification describes it: a
  non-empty project type is validated with no message; an absent or empty project type
  is not validated, with the one fixed message.
\<close>

theorem validateCreateCommand_spec_result:
  "(t \<noteq> [] \<longrightarrow>
      validateCreateCommand_spec \<lparr>projectType = Some t\<rparr>
        = \<lparr>validated = True, message = None\<rparr>)
   \<and> validateCreateCommand_spec \<lparr>projectType = None\<rparr>
        = \<lparr>validated = False, message = Some EMPTY_TYPE_MESSAGE\<rparr>
   \<and> validateCreateCommand_spec \<lparr>projectType = Some []\<rparr>
        = \<lparr>validated = False, message = Some EMPTY_TYPE_MESSAGE\<rparr>"
  by (simp add: validateCreateCommand_spec_def)

theorem validateCreateCommand_spec_result_witness:
  "validateCreateCommand_spec \<lparr>projectType = Some ''react''\<rparr>
     = \<lparr>validated = True, message = None\<rparr>
   \<and> validateCreateCommand_spec \<lparr>projectType = None\<rparr>
     = \<lparr>validated = False, message = Some EMPTY_TYPE_MESSAGE\<rparr>"
  using validateCreateCommand_spec_result [of "''react''"] by simp

section \<open>Construction with and without a package.json\<close>

text \<open>
  Claim C8, as the code has it. \<^verbatim>\<open>createWithResolve\<close> fails with the error of a
  missing package.json when the file cannot be resolved, and holds the content of the
  file when it can. \<^verbatim>\<open>createWithOptions\<close> (the constructor) never reads the file and
  never fails: the manager holds the supplied \<^verbatim>\<open>packageConfig\<close> when one is given
  and \<^verbatim>\<open>PACKAGE_JSON_BASE\<close> when none is.
\<close>

theorem construction_of_manager:
  "(resolveModule env (path_resolve env base ''package.json'') = None \<longrightarrow>
      createWithResolve env base = Inl ConfigNotFound)
   \<and> (resolveModule env (path_resolve env base ''package.json'') = Some config \<longrightarrow>
      (\<exists>manager. createWithResolve env base = Inr manager \<and> packageConfig manager = config))
   \<and> (\<exists>manager. createWithOptions env options = Inr manager
        \<and> packageConfig manager =
            (case opt_packageConfig options of
               Some supplied \<Rightarrow> supplied
             | None \<Rightarrow> PACKAGE_JSON_BASE env))"
  by (simp add: createWithResolve_def resolvePackageConfig_def constructor_def
        createWithOptions_def)

theorem construction_of_manager_witness:
  "createWithResolve (emptyDisk []) ''/project'' = Inl ConfigNotFound
   \<and> (\<exists>manager. createWithOptions (emptyDisk [])
          \<lparr>opt_basePath = ''/project'', opt_managerName = None,
           opt_packageConfig = Some [(''name'', JStr ''app'')]\<rparr> = Inr manager
        \<and> packageConfig manager = [(''name'', JStr ''app'')])"
  using construction_of_manager
    [of "emptyDisk []" "''/project''" "[]"
        "\<lparr>opt_basePath = ''/project'', opt_managerName = None,
          opt_packageConfig = Some [(''name'', JStr ''app'')]\<rparr>"]
  by (simp add: emptyDisk_def)

text \<open>
  The claim as it stands fails: with no package.json to read and no
  \<^verbatim>\<open>packageConfig\<close> supplied, the constructor succeeds with \<^verbatim>\<open>PACKAGE_JSON_BASE\<close>.
\<close>

theorem construction_without_skeleton_succeeds:
  "resolveModule (emptyDisk [(''name'', JStr ''base'')])
       (path_resolve (emptyDisk [(''name'', JStr ''base'')]) ''/project'' ''package.json'')
     = None
   \<and> createWithOptions (emptyDisk [(''name'', JStr ''base'')])
       \<lparr>opt_basePath = ''/project'', opt_managerName = None, opt_packageConfig = None\<rparr>
     = Inr \<lparr>basePath = ''/project'', managerName = npm,
            packageConfig = [(''name'', JStr ''base'')]\<rparr>"
  by (simp add: createWithOptions_def constructor_def emptyDisk_def getPackageManagerName_def)

section \<open>The host and the port the dev server listens on\<close>

text \<open>
  What \<^verbatim>\<open>start()\<close> gives to \<^verbatim>\<open>server.listen\<close>: the port and the host of the user's
  app configuration when they are truthy there, the defaults when they are not. Neither
  depends on the plugin modules, on the bundler configuration the plugins merge into,
  or on the dev-server configuration.
\<close>

lemma listen_from_user_config:
  "listenPort (start wm defaultPort defaultHost this)
     = (if truthy (userPort this) then userPort this else defaultPort)
   \<and> listenHost (start wm defaultPort defaultHost this)
     = (if truthy (userHost this) then userHost this else defaultHost)
   \<and> listenPort (start wm defaultPort defaultHost
                   (this\<lparr>pluginModules := plugins, webpackConfig := config,
                         devServerConfig := server\<rparr>))
     = listenPort (start wm defaultPort defaultHost this)
   \<and> listenHost (start wm defaultPort defaultHost
                   (this\<lparr>pluginModules := plugins, webpackConfig := config,
                         devServerConfig := server\<rparr>))
     = listenHost (start wm defaultPort defaultHost this)"
  by (simp add: start_def Let_def userPort_def userHost_def orElse_def)

text \<open>
  Claim C9 at its failing input. The user's app configuration holds the port
  \<^verbatim>\<open>0\<close> and the host \<^verbatim>\<open>''\<close>, and \<^verbatim>\<open>server.listen\<close> gets the defaults
  \<^verbatim>\<open>9000\<close> and \<^verbatim>\<open>0.0.0.0\<close>: the code writes \<^verbatim>\<open>||\<close>, which also replaces a
  value that is present and falsy, where the comment above it gives the defaults to a
  configuration that does not exist.
\<close>

theorem user_port_zero_is_replaced:
  "userPort \<lparr>webpackConfig = JObj [], devServerConfig = [],
             appConfig = [(''additional'', JObj [(''webpackDevServerPort'', JNum 0),
                                                 (''webpackDevServerHost'', JStr [])])],
             pluginModules = []\<rparr> = JNum 0
   \<and> listenPort (start wm (JNum 9000) (JStr ''0.0.0.0'')
        \<lparr>webpackConfig = JObj [], devServerConfig = [],
         appConfig = [(''additional'', JObj [(''webpackDevServerPort'', JNum 0),
                                             (''webpackDevServerHost'', JStr [])])],
         pluginModules = []\<rparr>) = JNum 9000
   \<and> listenHost (start wm (JNum 9000) (JStr ''0.0.0.0'')
        \<lparr>webpackConfig = JObj [], devServerConfig = [],
         appConfig = [(''additional'', JObj [(''webpackDevServerPort'', JNum 0),
                                             (''webpackDevServerHost'', JStr [])])],
         pluginModules = []\<rparr>) = JStr ''0.0.0.0''"
  by (simp add: start_def Let_def userPort_def orElse_def optChain_def getProp_def)

end
